theory Spec2Isabelle
  imports Main
begin

section \<open>Chunks of an assistant stream\<close>

text \<open>
  The controller of \<^verbatim>\<open>assistant-stream\<close> (\<^verbatim>\<open>AssistantStreamControllerImpl\<close>) turns a
  few producer calls into one sequence of chunks. A chunk has a \<^verbatim>\<open>type\<close> tag with the
  fields of that tag, and a \<^verbatim>\<open>path\<close>, a list of integers naming a place in the tree of
  parts (the empty path is the root).

  JSON values are the arguments and results of tool calls. Numbers are integers here:
  floating point is left out. The controller only passes these values on, and hands the
  arguments to the language's \<^verbatim>\<open>JSON.stringify\<close>.
\<close>

datatype json =
    JNull
  | JBool bool
  | JNum int
  | JStr string
  | JArr "json list"
  | JObj "(string \<times> json) list"

text \<open>
  \<^verbatim>\<open>PartInit\<close>: what a part-start chunk announces. The controller builds
  \<^verbatim>\<open>{ type: "text" }\<close>, \<^verbatim>\<open>{ type: "reasoning" }\<close>,
  \<^verbatim>\<open>{ type: "tool-call", toolName, toolCallId }\<close>, and passes a \<^verbatim>\<open>SourcePart\<close>
  (\<^verbatim>\<open>id\<close>, \<^verbatim>\<open>url\<close>, optional \<^verbatim>\<open>title\<close>; its \<^verbatim>\<open>sourceType\<close> is always \<^verbatim>\<open>"url"\<close>) or a
  \<^verbatim>\<open>FilePart\<close> (\<^verbatim>\<open>data\<close>, \<^verbatim>\<open>mimeType\<close>) on as they are.
\<close>

datatype part_init =
    TextInit
  | ReasoningInit
  | ToolCallInit string string
  | SourceInit string string "string option"
  | FileInit string string

datatype chunk_type =
    PartStart part_init
  | TextDelta string
  | ArgsTextDelta string
  | ToolCallArgsTextFinish
  | Result json bool
  | PartFinish
  | ErrorChunk string
  | Data json

record chunk =
  ctype :: chunk_type
  path :: "int list"

definition isRootPartStart :: "chunk \<Rightarrow> bool" where
  \<comment> \<open>\<^verbatim>\<open>chunk.type === "part-start" && chunk.path.length === 0\<close>\<close>
  "isRootPartStart c = ((case ctype c of PartStart p \<Rightarrow> True | _ \<Rightarrow> False) \<and> path c = [])"

section \<open>The collaborators of the controller\<close>

text \<open>
  The controller's file imports the Index Generator (\<^verbatim>\<open>Counter\<close>), the two Path
  Rewriters (\<^verbatim>\<open>PathAppendEncoder\<close>, \<^verbatim>\<open>PathMergeEncoder\<close>), the Stream Multiplexer
  (\<^verbatim>\<open>createMergeStream\<close>) and the sub-controllers of a text part and of a tool-call part
  from files that are not among the sources. They are modelled here from what the
  specification says about them.
\<close>

subsection \<open>Index Generator\<close>

text \<open>
  Modelled from the spec: the \<^verbatim>\<open>Counter\<close> class is missing. Section 4.4:
  ``\<^verbatim>\<open>value\<close>: current integer. \<^verbatim>\<open>up()\<close>: returns current value then increments.''
  The value it starts from is not stated and is a parameter of a new controller.
\<close>

record counter =
  val :: int

definition up :: "counter \<Rightarrow> int \<times> counter" where
  \<comment> \<open>Modelled from the spec: \<^verbatim>\<open>Counter.up()\<close> returns the current value, then increments\<close>
  "up c = (val c, c\<lparr>val := val c + 1\<rparr>)"

subsection \<open>Path Rewriters and sub-sequences\<close>

text \<open>
  A sub-sequence (a \<^verbatim>\<open>ReadableStream\<close> of chunks) is what a producer has emitted and
  its rewriter has not yet read (\<open>queue\<close>), whether the producer has closed it
  (\<open>finished\<close>), and the rewriter it is piped through. The controllers handed out to
  producers are references to their sub-sequence: its index in the list of all
  sub-sequences the controller has created. \<open>registered\<close> tells whether the Multiplexer
  took the sub-sequence; \<open>argsTextClosed\<close> is the state of a tool-call part's
  argument-text sub-object.

  A fixed rewriter is its constant. A dynamic rewriter is the values it remembers, in
  the order drawn, and the chunks it has rewritten and that the Multiplexer has not yet
  read from it.
\<close>

datatype encoder =
    PathAppendEncoder int
  | PathMergeEncoder "int list" "chunk list"

record source =
  through :: encoder
  queue :: "chunk list"
  finished :: bool
  argsTextClosed :: bool
  registered :: bool

text \<open>
  Modelled from the spec: \<^verbatim>\<open>PathAppendEncoder\<close> is missing. Section 4.2: ``Maps every
  chunk's path \<open>P\<close> to \<open>[k] ++ P\<close>.''
\<close>

definition pathAppend :: "int \<Rightarrow> chunk \<Rightarrow> chunk" where
  \<comment> \<open>Modelled from the spec: the fixed Path Rewriter prefixes the path with \<open>k\<close>\<close>
  "pathAppend k c = c\<lparr>path := k # path c\<rparr>"


subsection \<open>Stream Multiplexer\<close>

text \<open>
  Modelled from the spec: \<^verbatim>\<open>createMergeStream\<close> is missing. Section 4.1:
  \<^item> \<^verbatim>\<open>addStream(seq)\<close> ``registers a new source sequence'' and ``increments a
    pending-count'';
  \<^item> \<^verbatim>\<open>enqueue(chunk)\<close> ``forwards a chunk directly to the output, bypassing registered
    sources'';
  \<^item> \<^verbatim>\<open>seal()\<close> ``records intent to close; idempotent; the output actually closes only
    once \<^verbatim>\<open>seal()\<close> has been called AND the pending-count has reached zero'';
  \<^item> \<^verbatim>\<open>isSealed()\<close> is ``true once the output has fully closed (not merely once
    \<^verbatim>\<open>seal()\<close> was called)'';
  \<^item> ``no further \<^verbatim>\<open>addStream\<close>/\<^verbatim>\<open>enqueue\<close> is accepted once failed or
    sealed-and-drained'': a call that is not accepted leaves the output and the
    registered sources as they are.
  A registered sub-sequence is pending until it is finished and all its chunks have been
  forwarded. The failure of a source is left out: no operation of the controller makes
  one fail.

  \<open>refused\<close> keeps the chunks that producers offered to a sub-sequence after its terminal
  finish chunk, each with the index of the sub-sequence. The specification does not say
  what a closed sub-controller does with them; they reach no output and nothing reads
  them.
\<close>

record merger =
  readable :: "chunk list"
  sources :: "source list"
  sealRequested :: bool
  refused :: "(nat \<times> chunk) list"

definition drained :: "source \<Rightarrow> bool" where
  \<comment> \<open>Modelled from the spec: a source has finished once it is closed and all its chunks are forwarded\<close>
  "drained src =
     (finished src \<and> queue src = [] \<and>
      (case through src of PathAppendEncoder k \<Rightarrow> True | PathMergeEncoder mp out \<Rightarrow> out = []))"

definition pending :: "merger \<Rightarrow> nat" where
  \<comment> \<open>Modelled from the spec: the pending-count of the Multiplexer\<close>
  "pending m = length (filter (\<lambda>src. registered src \<and> \<not> drained src) (sources m))"

definition isSealed :: "merger \<Rightarrow> bool" where
  \<comment> \<open>Modelled from the spec: \<^verbatim>\<open>isSealed()\<close>, true once sealed and drained\<close>
  "isSealed m = (sealRequested m \<and> pending m = 0)"

definition createMergeStream :: merger where
  \<comment> \<open>Modelled from the spec: a new Multiplexer: nothing forwarded, no source, not sealed\<close>
  "createMergeStream = \<lparr>readable = [], sources = [], sealRequested = False, refused = []\<rparr>"

definition addStream :: "source \<Rightarrow> merger \<Rightarrow> merger" where
  \<comment> \<open>Modelled from the spec: \<^verbatim>\<open>addStream(seq)\<close>, accepted unless sealed and drained\<close>
  "addStream src m = m\<lparr>sources := sources m @ [src\<lparr>registered := \<not> isSealed m\<rparr>]\<rparr>"

definition merger_enqueue :: "chunk \<Rightarrow> merger \<Rightarrow> merger" where
  \<comment> \<open>Modelled from the spec: \<^verbatim>\<open>enqueue(chunk)\<close>, directly to the output, accepted unless sealed and drained\<close>
  "merger_enqueue c m = (if isSealed m then m else m\<lparr>readable := readable m @ [c]\<rparr>)"

definition seal :: "merger \<Rightarrow> merger" where
  \<comment> \<open>Modelled from the spec: \<^verbatim>\<open>seal()\<close> records the intent to close\<close>
  "seal m = m\<lparr>sealRequested := True\<rparr>"

subsection \<open>Sub-controllers\<close>

text \<open>
  Modelled from the spec: \<^verbatim>\<open>createTextStreamController\<close> is missing. Section 6, the
  text-like part: ``exposes \<^verbatim>\<open>append(deltaText)\<close> and \<^verbatim>\<open>close()\<close>; internally emits delta
  chunks at path \<open>[]\<close> relative to its own sub-sequence and a terminal finish chunk on
  close''. The finish chunk is terminal: a closed sub-sequence takes no further chunk,
  and a chunk offered to it is set aside in \<open>refused\<close>.
\<close>

definition emit :: "nat \<Rightarrow> chunk \<Rightarrow> merger \<Rightarrow> merger" where
  \<comment> \<open>Modelled from the spec: a producer puts a chunk in its sub-sequence; a closed one refuses it\<close>
  "emit r c m =
     (if r < length (sources m) then
        (if finished (sources m ! r) then m\<lparr>refused := refused m @ [(r, c)]\<rparr>
         else m\<lparr>sources := (sources m)[r := (sources m ! r)\<lparr>queue := queue (sources m ! r) @ [c]\<rparr>]\<rparr>)
      else m)"

definition finish :: "nat \<Rightarrow> merger \<Rightarrow> merger" where
  \<comment> \<open>Modelled from the spec: a producer closes its sub-sequence with the terminal finish chunk\<close>
  "finish r m =
     (if r < length (sources m) \<and> \<not> finished (sources m ! r)
      then m\<lparr>sources := (sources m)[r := (sources m ! r)
             \<lparr>queue := queue (sources m ! r) @ [\<lparr>ctype = PartFinish, path = []\<rparr>],
              finished := True\<rparr>]\<rparr>
      else m)"

definition text_append :: "nat \<Rightarrow> string \<Rightarrow> merger \<Rightarrow> merger" where
  \<comment> \<open>Modelled from the spec: \<^verbatim>\<open>append(deltaText)\<close> of a text-like sub-controller\<close>
  "text_append r textDelta m = emit r \<lparr>ctype = TextDelta textDelta, path = []\<rparr> m"

definition text_close :: "nat \<Rightarrow> merger \<Rightarrow> merger" where
  \<comment> \<open>Modelled from the spec: \<^verbatim>\<open>close()\<close> of a text-like sub-controller\<close>
  "text_close r m = finish r m"




definition newStream :: "chunk list \<Rightarrow> bool \<Rightarrow> source" where
  \<comment> \<open>a sub-sequence before it is piped through a rewriter and handed to the Multiplexer\<close>
  "newStream cs fin =
     \<lparr>through = PathAppendEncoder 0, queue = cs, finished = fin,
      argsTextClosed = False, registered = False\<rparr>"

subsection \<open>Piping and forwarding\<close>



section \<open>The controller\<close>

text \<open>
  \<^verbatim>\<open>AssistantStreamControllerImpl\<close>: its private fields \<^verbatim>\<open>_merger\<close>, \<^verbatim>\<open>_append\<close>,
  \<^verbatim>\<open>_contentCounter\<close> and \<^verbatim>\<open>_closeSubscriber\<close>. The close subscriber is a callback; what
  calling it does lies outside the controller, so the state records the calls made, in
  order (\<open>notified\<close>). Every method takes the state and returns the new one.
\<close>

datatype append_kind = Text | Reasoning

record append_target =
  controller :: nat
  kind :: append_kind

record impl =
  p_merger :: merger
  p_append :: "append_target option"
  p_contentCounter :: counter
  p_closeSubscriber :: "nat option"
  notified :: "nat list"

definition new_impl :: "int \<Rightarrow> impl" where
  \<comment> \<open>\<^verbatim>\<open>new AssistantStreamControllerImpl()\<close>, the Index Generator starting at \<open>c0\<close>\<close>
  "new_impl c0 =
     \<lparr>p_merger = createMergeStream, p_append = None, p_contentCounter = \<lparr>val = c0\<rparr>,
      p_closeSubscriber = None, notified = []\<rparr>"

definition internal_isClosed :: "impl \<Rightarrow> bool" where
  "internal_isClosed s = isSealed (p_merger s)"

definition internal_getReadable :: "impl \<Rightarrow> chunk list" where
  "internal_getReadable s = readable (p_merger s)"

definition internal_subscribeToClose :: "nat \<Rightarrow> impl \<Rightarrow> impl" where
  "internal_subscribeToClose callback s = s\<lparr>p_closeSubscriber := Some callback\<rparr>"

definition enqueue :: "chunk \<Rightarrow> impl \<Rightarrow> impl" where
  "enqueue chunk s =
     (let s1 = s\<lparr>p_merger := merger_enqueue chunk (p_merger s)\<rparr>
      in if isRootPartStart chunk
         then s1\<lparr>p_contentCounter := snd (up (p_contentCounter s1))\<rparr>
         else s1)"

definition addPart :: "part_init \<Rightarrow> source \<Rightarrow> impl \<Rightarrow> impl" where
  \<comment> \<open>\<^verbatim>\<open>_addPart\<close>\<close>
  "addPart part stream s =
     (let s1 = (case p_append s of
                  Some a \<Rightarrow> s\<lparr>p_merger := text_close (controller a) (p_merger s), p_append := None\<rparr>
                | None \<Rightarrow> s);
          s2 = enqueue \<lparr>ctype = PartStart part, path = []\<rparr> s1
      in s2\<lparr>p_merger :=
              addStream (stream\<lparr>through := PathAppendEncoder (val (p_contentCounter s2))\<rparr>)
                (p_merger s2)\<rparr>)"

text \<open>
  The Multiplexer after the first statement of \<^verbatim>\<open>_addPart\<close>, which closes the append
  target if there is one.
\<close>

definition targetClosed :: "impl \<Rightarrow> merger" where
  "targetClosed s =
     (case p_append s of Some a \<Rightarrow> text_close (controller a) (p_merger s) | None \<Rightarrow> p_merger s)"

definition merge :: "chunk list \<Rightarrow> impl \<Rightarrow> impl" where
  \<comment> \<open>the merged sequence is given whole (the specification calls it already complete)\<close>
  "merge stream s =
     s\<lparr>p_merger :=
         addStream ((newStream stream True)\<lparr>through := PathMergeEncoder [] []\<rparr>) (p_merger s)\<rparr>"

definition addTextPart :: "impl \<Rightarrow> nat \<times> impl" where
  "addTextPart s = (length (sources (p_merger s)), addPart TextInit (newStream [] False) s)"

definition addReasoningPart :: "impl \<Rightarrow> nat \<times> impl" where
  "addReasoningPart s = (length (sources (p_merger s)), addPart ReasoningInit (newStream [] False) s)"

definition appendText :: "string \<Rightarrow> impl \<Rightarrow> impl" where
  "appendText textDelta s =
     (let s1 = (if (case p_append s of Some a \<Rightarrow> kind a \<noteq> Text | None \<Rightarrow> True)
                then (let r = addTextPart s
                      in (snd r)\<lparr>p_append := Some \<lparr>controller = fst r, kind = Text\<rparr>\<rparr>)
                else s)
      in case p_append s1 of
           Some a \<Rightarrow> s1\<lparr>p_merger := text_append (controller a) textDelta (p_merger s1)\<rparr>
         | None \<Rightarrow> s1)"

definition appendReasoning :: "string \<Rightarrow> impl \<Rightarrow> impl" where
  "appendReasoning textDelta s =
     (let s1 = (if (case p_append s of Some a \<Rightarrow> kind a \<noteq> Reasoning | None \<Rightarrow> True)
                then (let r = addReasoningPart s
                      in (snd r)\<lparr>p_append := Some \<lparr>controller = fst r, kind = Reasoning\<rparr>\<rparr>)
                else s)
      in case p_append s1 of
           Some a \<Rightarrow> s1\<lparr>p_merger := text_append (controller a) textDelta (p_merger s1)\<rparr>
         | None \<Rightarrow> s1)"




definition appendSource :: "string \<Rightarrow> string \<Rightarrow> string option \<Rightarrow> impl \<Rightarrow> impl" where
  "appendSource sid url title s =
     addPart (SourceInit sid url title) (newStream [\<lparr>ctype = PartFinish, path = []\<rparr>] True) s"

definition appendFile :: "string \<Rightarrow> string \<Rightarrow> impl \<Rightarrow> impl" where
  "appendFile dat mimeType s =
     addPart (FileInit dat mimeType) (newStream [\<lparr>ctype = PartFinish, path = []\<rparr>] True) s"

definition close :: "impl \<Rightarrow> impl" where
  "close s =
     (let s1 = s\<lparr>p_merger := seal (p_merger s)\<rparr>;
          s2 = (case p_append s1 of
                  Some a \<Rightarrow> s1\<lparr>p_merger := text_close (controller a) (p_merger s1)\<rparr>
                | None \<Rightarrow> s1)
      in case p_closeSubscriber s2 of
           Some callback \<Rightarrow> s2\<lparr>notified := notified s2 @ [callback]\<rparr>
         | None \<Rightarrow> s2)"





section \<open>The entry point\<close>

text \<open>
  \<^verbatim>\<open>createAssistantStream(callback)\<close>. The driving computation receives the controller
  and either throws or returns; what it returns is nothing, a \<^verbatim>\<open>Promise\<close>, or some other
  thenable (its type is \<^verbatim>\<open>PromiseLike<void> | void\<close>, and the entry point tests
  \<^verbatim>\<open>instanceof Promise\<close>).

  Any value can be thrown. The catch blocks evaluate \<^verbatim>\<open>String(e)\<close>, which returns a text
  or, for a value with no conversion to a primitive (\<^verbatim>\<open>Object.create(null)\<close>, an object
  whose \<^verbatim>\<open>toString\<close> throws), throws in its turn: a thrown value is known here by what
  \<^verbatim>\<open>String(e)\<close> does with it. The entry point throws (\<open>Inl\<close>) or returns the stream, with
  \<^verbatim>\<open>runTask\<close> started or not.
\<close>

datatype thrown = Printable string | Unprintable thrown

fun String_of :: "thrown \<Rightarrow> thrown + string" where
  "String_of (Printable s) = Inr s"
| "String_of (Unprintable e) = Inl e"

datatype returned = Void | PromiseInstance | Thenable

datatype outcome = Throws thrown | Returns returned

datatype task = NoTask | RunTask

datatype settlement = Resolved | Rejected thrown

definition errorChunk :: "string \<Rightarrow> chunk" where
  "errorChunk text = \<lparr>ctype = ErrorChunk text, path = []\<rparr>"

definition createAssistantStream :: "int \<Rightarrow> (impl \<Rightarrow> outcome \<times> impl) \<Rightarrow> (thrown + task) \<times> impl" where
  "createAssistantStream c0 callback =
     (case callback (new_impl c0) of
        (Throws e, s) \<Rightarrow>
          if \<not> internal_isClosed s
          then (case String_of e of
                  Inr text \<Rightarrow> (Inl e, close (enqueue (errorChunk text) s))
                | Inl e' \<Rightarrow> (Inl e', s))
          else (Inl e, s)
      | (Returns PromiseInstance, s) \<Rightarrow> (Inr RunTask, s)
      | (Returns _, s) \<Rightarrow> (Inr NoTask, if \<not> internal_isClosed s then close s else s))"

text \<open>
  \<^verbatim>\<open>runTask\<close> awaits the promise: \<open>s\<close> is the controller's state when the promise
  settles. The \<^verbatim>\<open>catch\<close> block enqueues the error chunk and rethrows, unless
  \<^verbatim>\<open>String(e)\<close> throws first; the \<^verbatim>\<open>finally\<close> block closes in every case; both look at
  \<^verbatim>\<open>__internal_isClosed\<close>.
\<close>

definition runTask :: "settlement \<Rightarrow> impl \<Rightarrow> (thrown + unit) \<times> impl" where
  "runTask settled s =
     (case settled of
        Resolved \<Rightarrow> (Inr (), if \<not> internal_isClosed s then close s else s)
      | Rejected e \<Rightarrow>
          (let r = (if \<not> internal_isClosed s
                    then (case String_of e of
                            Inr text \<Rightarrow> (e, enqueue (errorChunk text) s)
                          | Inl e' \<Rightarrow> (e', s))
                    else (e, s))
           in (Inl (fst r), if \<not> internal_isClosed (snd r) then close (snd r) else snd r)))"

definition settle :: "task \<Rightarrow> settlement \<Rightarrow> impl \<Rightarrow> (thrown + unit) \<times> impl" where
  \<comment> \<open>what the entry point's code does when the deferred result settles\<close>
  "settle t settled s = (case t of RunTask \<Rightarrow> runTask settled s | NoTask \<Rightarrow> (Inr (), s))"

text \<open>
  \<^verbatim>\<open>createAssistantStreamController()\<close>: the driving computation subscribes the
  \<^verbatim>\<open>resolve\<close> function of a new promise to close and returns the promise. \<open>resolve\<close> is
  the name under which the calls of that function are recorded.
\<close>

definition createAssistantStreamController :: "int \<Rightarrow> nat \<Rightarrow> (thrown + task) \<times> impl" where
  "createAssistantStreamController c0 resolve =
     createAssistantStream c0 (\<lambda>c. (Returns PromiseInstance, internal_subscribeToClose resolve c))"

section \<open>Facts about the collaborators\<close>

lemma filter_update_same:
  "i < length xs \<Longrightarrow> P (xs ! i) = P y \<Longrightarrow> length (filter P (xs[i := y])) = length (filter P xs)"
proof (induction xs arbitrary: i)
  case Nil
  then show ?case by simp
next
  case (Cons x xs)
  then show ?case by (cases i) auto
qed

lemma pending_finish: "pending (finish r m) = pending m"
  by (auto simp: pending_def finish_def drained_def intro!: filter_update_same)

lemma pending_emit: "pending (emit r c m) = pending m"
  by (auto simp: pending_def emit_def drained_def intro!: filter_update_same)

lemma isSealed_finish: "isSealed (finish r m) = isSealed m"
  by (simp add: isSealed_def pending_finish) (simp add: finish_def)

lemma isSealed_emit: "isSealed (emit r c m) = isSealed m"
  by (simp add: isSealed_def pending_emit) (simp add: emit_def)

lemma isSealed_enqueue: "isSealed (merger_enqueue c m) = isSealed m"
  by (simp add: merger_enqueue_def isSealed_def pending_def)

lemma readable_finish: "readable (finish r m) = readable m"
  by (simp add: finish_def)

lemma readable_emit: "readable (emit r c m) = readable m"
  by (simp add: emit_def)

lemma length_sources_finish: "length (sources (finish r m)) = length (sources m)"
  by (simp add: finish_def)


lemma finish_idem: "finish r (finish r m) = finish r m"
  by (simp add: finish_def)

lemma finish_seal: "finish r (seal m) = seal (finish r m)"
  by (simp add: finish_def seal_def)

lemma seal_idem: "seal (seal m) = seal m"
  by (simp add: seal_def)

section \<open>Facts about \<^verbatim>\<open>close\<close>\<close>

lemma p_append_close: "p_append (close s) = p_append s"
  by (simp add: close_def Let_def split: option.splits)

lemma readable_close: "readable (p_merger (close s)) = readable (p_merger s)"
  by (simp add: close_def Let_def text_close_def readable_finish seal_def split: option.splits)

lemma counter_close: "p_contentCounter (close s) = p_contentCounter s"
  by (simp add: close_def Let_def split: option.splits)

lemma finished_finish:
  "r < length (sources m) \<Longrightarrow> finished (sources (finish r m) ! r)"
  by (simp add: finish_def)

lemma sources_seal: "sources (seal m) = sources m"
  by (simp add: seal_def)

lemma target_closed_by_close:
  "p_append s = Some a \<Longrightarrow> controller a < length (sources (p_merger s)) \<Longrightarrow>
   finished (sources (p_merger (close s)) ! controller a)"
  by (simp add: close_def Let_def text_close_def finished_finish sources_seal split: option.splits)

section \<open>Closing twice\<close>

text \<open>
  C2. The claim: \<^verbatim>\<open>close()\<close> is idempotent; a second call emits no second terminal or
  seal signal, does not notify the close subscriber again, and raises no error.

  What holds: the second call leaves the Multiplexer, the append target and the Index
  Generator exactly as the first call left them (sealing again and closing the closed
  target again change nothing, and nothing is raised), but \<^verbatim>\<open>close()\<close> calls
  \<^verbatim>\<open>this._closeSubscriber?.()\<close> every time: a subscriber that is registered is notified
  once more.
\<close>

theorem close_again:
  "close (close s) =
     (close s)\<lparr>notified := notified (close s) @
        (case p_closeSubscriber s of Some callback \<Rightarrow> [callback] | None \<Rightarrow> [])\<rparr>"
  by (cases "p_append s"; cases "p_closeSubscriber s")
     (simp_all add: close_def text_close_def finish_idem finish_seal seal_idem)

text \<open>
  The subscriber 7 of a new controller is called once by the first \<^verbatim>\<open>close()\<close> and a
  second time by the second.
\<close>

theorem close_again_notifies:
  "notified (close (internal_subscribeToClose 7 (new_impl 0))) = [7] \<and>
   notified (close (close (internal_subscribeToClose 7 (new_impl 0)))) = [7, 7]"
  by (simp add: close_def internal_subscribeToClose_def new_impl_def seal_def
      createMergeStream_def)

section \<open>Merging and the append target\<close>

lemma p_append_merge: "p_append (merge stream s) = p_append s"
  by (simp add: merge_def)

lemma readable_merge: "readable (p_merger (merge stream s)) = readable (p_merger s)"
  by (simp add: merge_def addStream_def)

lemma counter_merge: "p_contentCounter (merge stream s) = p_contentCounter s"
  by (simp add: merge_def)

lemma sources_merge:
  "sources (p_merger (merge stream s)) =
     sources (p_merger s) @
       [(newStream stream True)\<lparr>through := PathMergeEncoder [] [], registered := \<not> isSealed (p_merger s)\<rparr>]"
  by (simp add: merge_def addStream_def)

lemma append_same_kind:
  "p_append s = Some \<lparr>controller = r, kind = k\<rparr> \<Longrightarrow>
   (case k of Text \<Rightarrow> appendText d | Reasoning \<Rightarrow> appendReasoning d) s =
     s\<lparr>p_merger := text_append r d (p_merger s)\<rparr>"
  by (cases k) (simp_all add: appendText_def appendReasoning_def Let_def)

lemma emit_nth_append:
  "r < length (sources m) \<Longrightarrow> sources m' = sources m @ ys \<Longrightarrow>
   sources (emit r c m') ! r = sources (emit r c m) ! r"
  by (simp add: emit_def nth_append)

text \<open>
  C9. \<^verbatim>\<open>merge(sequence)\<close> leaves the append target as it is: the target and the state of
  its sub-sequence are the same after the call, so a following \<^verbatim>\<open>appendText\<close>
  (\<^verbatim>\<open>appendReasoning\<close>) of the target's kind only calls \<^verbatim>\<open>append\<close> of the same
  sub-controller: no part-start chunk reaches the output, no position is drawn, and the
  part's sub-sequence receives the delta as it would have without the merge.
  \<open>r\<close> is the target's sub-controller, which the controller created.
\<close>

theorem merge_keeps_append_target:
  assumes "p_append s = Some \<lparr>controller = r, kind = k\<rparr>"
    and "r < length (sources (p_merger s))"
  shows "p_append (merge stream s) = Some \<lparr>controller = r, kind = k\<rparr> \<and>
         sources (p_merger (merge stream s)) ! r = sources (p_merger s) ! r \<and>
         (case k of Text \<Rightarrow> appendText d | Reasoning \<Rightarrow> appendReasoning d) (merge stream s) =
           (merge stream s)\<lparr>p_merger := text_append r d (p_merger (merge stream s))\<rparr> \<and>
         internal_getReadable
           ((case k of Text \<Rightarrow> appendText d | Reasoning \<Rightarrow> appendReasoning d) (merge stream s)) =
           internal_getReadable s \<and>
         p_contentCounter
           ((case k of Text \<Rightarrow> appendText d | Reasoning \<Rightarrow> appendReasoning d) (merge stream s)) =
           p_contentCounter s \<and>
         sources (p_merger
           ((case k of Text \<Rightarrow> appendText d | Reasoning \<Rightarrow> appendReasoning d) (merge stream s))) ! r =
           sources (p_merger
             ((case k of Text \<Rightarrow> appendText d | Reasoning \<Rightarrow> appendReasoning d) s)) ! r"
proof -
  let ?app = "case k of Text \<Rightarrow> appendText d | Reasoning \<Rightarrow> appendReasoning d"
  have t: "p_append (merge stream s) = Some \<lparr>controller = r, kind = k\<rparr>"
    using assms(1) by (simp add: p_append_merge)
  have n: "sources (p_merger (merge stream s)) ! r = sources (p_merger s) ! r"
    using assms(2) by (simp add: sources_merge nth_append)
  have e: "?app (merge stream s) =
           (merge stream s)\<lparr>p_merger := text_append r d (p_merger (merge stream s))\<rparr>"
    by (rule append_same_kind[OF t])
  have e0: "?app s = s\<lparr>p_merger := text_append r d (p_merger s)\<rparr>"
    by (rule append_same_kind[OF assms(1)])
  have o: "internal_getReadable (?app (merge stream s)) = internal_getReadable s"
    by (simp add: e internal_getReadable_def text_append_def readable_emit readable_merge)
  have c: "p_contentCounter (?app (merge stream s)) = p_contentCounter s"
    by (simp add: e counter_merge)
  have q: "sources (p_merger (?app (merge stream s))) ! r = sources (p_merger (?app s)) ! r"
    using assms(2) by (simp add: e e0 text_append_def emit_nth_append[OF _ sources_merge])
  show ?thesis
    using t n e o c q by blast
qed

theorem merge_keeps_append_target_witness:
  "p_append (appendText ''a'' (new_impl 0)) = Some \<lparr>controller = 0, kind = Text\<rparr> \<and>
   0 < length (sources (p_merger (appendText ''a'' (new_impl 0)))) \<and>
   p_append (merge [\<lparr>ctype = PartStart TextInit, path = []\<rparr>] (appendText ''a'' (new_impl 0))) =
     Some \<lparr>controller = 0, kind = Text\<rparr> \<and>
   internal_getReadable
     (appendText ''b'' (merge [\<lparr>ctype = PartStart TextInit, path = []\<rparr>] (appendText ''a'' (new_impl 0)))) =
     internal_getReadable (appendText ''a'' (new_impl 0)) \<and>
   queue (sources (p_merger (appendText ''b'' (appendText ''a'' (new_impl 0)))) ! 0) =
     [\<lparr>ctype = TextDelta ''a'', path = []\<rparr>, \<lparr>ctype = TextDelta ''b'', path = []\<rparr>] \<and>
   sources (p_merger
     (appendText ''b'' (merge [\<lparr>ctype = PartStart TextInit, path = []\<rparr>] (appendText ''a'' (new_impl 0))))) ! 0 =
     sources (p_merger (appendText ''b'' (appendText ''a'' (new_impl 0)))) ! 0"
proof -
  have a: "p_append (appendText ''a'' (new_impl 0)) = Some \<lparr>controller = 0, kind = Text\<rparr>"
    by code_simp
  have b: "0 < length (sources (p_merger (appendText ''a'' (new_impl 0))))"
    by code_simp
  have c: "queue (sources (p_merger (appendText ''b'' (appendText ''a'' (new_impl 0)))) ! 0) =
     [\<lparr>ctype = TextDelta ''a'', path = []\<rparr>, \<lparr>ctype = TextDelta ''b'', path = []\<rparr>]"
    by code_simp
  show ?thesis
    using a b c
      merge_keeps_append_target[OF a b, of "[\<lparr>ctype = PartStart TextInit, path = []\<rparr>]" "''b''",
        unfolded append_kind.case]
    by blast
qed

section \<open>Appending after \<^verbatim>\<open>close\<close>\<close>

lemma text_append_closed:
  "r < length (sources m) \<Longrightarrow> finished (sources m ! r) \<Longrightarrow>
   text_append r d m = m\<lparr>refused := refused m @ [(r, \<lparr>ctype = TextDelta d, path = []\<rparr>)]\<rparr>"
  by (simp add: text_append_def emit_def)

lemma length_sources_close:
  "length (sources (p_merger (close s))) = length (sources (p_merger s))"
  by (simp add: close_def Let_def text_close_def length_sources_finish seal_def
      split: option.splits)

text \<open>
  C10. \<^verbatim>\<open>close()\<close> does not clear the append target. When the target has kind text
  (reasoning) as \<^verbatim>\<open>close()\<close> is called, the target is the same afterwards and its
  sub-controller is closed; a following \<^verbatim>\<open>appendText(delta)\<close>
  (\<^verbatim>\<open>appendReasoning(delta)\<close>) hands the delta to that closed sub-controller, which is
  all it does: the one change to the state is the delta among the chunks the closed
  sub-sequence \<open>r\<close> has refused. It enqueues no part-start chunk (the output is the same)
  and draws no position. \<open>r\<close> is the target's sub-controller, which the controller
  created.
\<close>

theorem close_keeps_append_target:
  assumes "p_append s = Some \<lparr>controller = r, kind = k\<rparr>"
    and "r < length (sources (p_merger s))"
  shows "p_append (close s) = Some \<lparr>controller = r, kind = k\<rparr> \<and>
         finished (sources (p_merger (close s)) ! r) \<and>
         (case k of Text \<Rightarrow> appendText d | Reasoning \<Rightarrow> appendReasoning d) (close s) =
           (close s)\<lparr>p_merger := (p_merger (close s))
             \<lparr>refused := refused (p_merger (close s)) @ [(r, \<lparr>ctype = TextDelta d, path = []\<rparr>)]\<rparr>\<rparr> \<and>
         (case k of Text \<Rightarrow> appendText d | Reasoning \<Rightarrow> appendReasoning d) (close s) \<noteq> close s \<and>
         internal_getReadable ((case k of Text \<Rightarrow> appendText d | Reasoning \<Rightarrow> appendReasoning d) (close s)) =
           internal_getReadable (close s) \<and>
         p_contentCounter ((case k of Text \<Rightarrow> appendText d | Reasoning \<Rightarrow> appendReasoning d) (close s)) =
           p_contentCounter (close s)"
proof -
  let ?app = "case k of Text \<Rightarrow> appendText d | Reasoning \<Rightarrow> appendReasoning d"
  let ?m = "p_merger (close s)"
  have t: "p_append (close s) = Some \<lparr>controller = r, kind = k\<rparr>"
    using assms(1) by (simp add: p_append_close)
  have f: "finished (sources ?m ! r)"
    using target_closed_by_close[OF assms(1)] assms(2) by simp
  have l: "r < length (sources ?m)"
    using assms(2) by (simp add: length_sources_close)
  have e: "?app (close s) = (close s)\<lparr>p_merger := text_append r d ?m\<rparr>"
    by (rule append_same_kind[OF t])
  have e': "?app (close s) =
      (close s)\<lparr>p_merger := ?m\<lparr>refused := refused ?m @ [(r, \<lparr>ctype = TextDelta d, path = []\<rparr>)]\<rparr>\<rparr>"
    by (simp add: e text_append_closed[OF l f])
  have n: "?app (close s) \<noteq> close s"
  proof
    assume "?app (close s) = close s"
    then have "refused (p_merger (?app (close s))) = refused ?m"
      by simp
    then show False
      by (simp add: e')
  qed
  have o: "internal_getReadable (?app (close s)) = internal_getReadable (close s)"
    by (simp add: e' internal_getReadable_def)
  have c: "p_contentCounter (?app (close s)) = p_contentCounter (close s)"
    by (simp add: e')
  show ?thesis
    using t f e' n o c by blast
qed

text \<open>
  \<^verbatim>\<open>appendText("a")\<close>, \<^verbatim>\<open>close()\<close>, \<^verbatim>\<open>appendText("b")\<close> on a new controller, and the same
  with \<^verbatim>\<open>appendReasoning\<close>: the closed sub-controller 0 is handed \<open>b\<close>.
\<close>

theorem close_keeps_append_target_witness:
  "p_append (appendText ''a'' (new_impl 0)) = Some \<lparr>controller = 0, kind = Text\<rparr> \<and>
   0 < length (sources (p_merger (appendText ''a'' (new_impl 0)))) \<and>
   refused (p_merger (appendText ''b'' (close (appendText ''a'' (new_impl 0))))) =
     [(0, \<lparr>ctype = TextDelta ''b'', path = []\<rparr>)] \<and>
   internal_getReadable (appendText ''b'' (close (appendText ''a'' (new_impl 0)))) =
     internal_getReadable (close (appendText ''a'' (new_impl 0))) \<and>
   p_append (appendReasoning ''a'' (new_impl 0)) = Some \<lparr>controller = 0, kind = Reasoning\<rparr> \<and>
   0 < length (sources (p_merger (appendReasoning ''a'' (new_impl 0)))) \<and>
   refused (p_merger (appendReasoning ''b'' (close (appendReasoning ''a'' (new_impl 0))))) =
     [(0, \<lparr>ctype = TextDelta ''b'', path = []\<rparr>)] \<and>
   internal_getReadable (appendReasoning ''b'' (close (appendReasoning ''a'' (new_impl 0)))) =
     internal_getReadable (close (appendReasoning ''a'' (new_impl 0)))"
proof -
  have a: "p_append (appendText ''a'' (new_impl 0)) = Some \<lparr>controller = 0, kind = Text\<rparr>"
    by code_simp
  have b: "0 < length (sources (p_merger (appendText ''a'' (new_impl 0))))"
    by code_simp
  have c: "refused (p_merger (close (appendText ''a'' (new_impl 0)))) = []"
    by code_simp
  have a': "p_append (appendReasoning ''a'' (new_impl 0)) = Some \<lparr>controller = 0, kind = Reasoning\<rparr>"
    by code_simp
  have b': "0 < length (sources (p_merger (appendReasoning ''a'' (new_impl 0))))"
    by code_simp
  have c': "refused (p_merger (close (appendReasoning ''a'' (new_impl 0)))) = []"
    by code_simp
  note t = close_keeps_append_target[OF a b, of "''b''", unfolded append_kind.case]
  note r = close_keeps_append_target[OF a' b', of "''b''", unfolded append_kind.case]
  have t3: "refused (p_merger (appendText ''b'' (close (appendText ''a'' (new_impl 0))))) =
     [(0, \<lparr>ctype = TextDelta ''b'', path = []\<rparr>)]"
    using t c by simp
  have r3: "refused (p_merger (appendReasoning ''b'' (close (appendReasoning ''a'' (new_impl 0))))) =
     [(0, \<lparr>ctype = TextDelta ''b'', path = []\<rparr>)]"
    using r c' by simp
  show ?thesis
    using a b a' b' t3 r3 t r by blast
qed

section \<open>Failures of the driving computation\<close>

lemma enqueue_error:
  "\<not> internal_isClosed s \<Longrightarrow>
   enqueue (errorChunk text) s =
     s\<lparr>p_merger := (p_merger s)\<lparr>readable := readable (p_merger s) @ [errorChunk text]\<rparr>\<rparr>"
  by (simp add: enqueue_def errorChunk_def isRootPartStart_def merger_enqueue_def
      internal_isClosed_def)

lemma open_after_enqueue_error:
  "\<not> internal_isClosed s \<Longrightarrow> \<not> internal_isClosed (enqueue (errorChunk text) s)"
  by (simp add: enqueue_error) (simp add: internal_isClosed_def isSealed_def pending_def)

lemma readable_error_close:
  "\<not> internal_isClosed s \<Longrightarrow>
   internal_getReadable (close (enqueue (errorChunk text) s)) =
     internal_getReadable s @ [\<lparr>ctype = ErrorChunk text, path = []\<rparr>]"
  by (simp add: internal_getReadable_def readable_close enqueue_error) (simp add: errorChunk_def)

lemma sealRequested_close: "sealRequested (p_merger (close s))"
  by (simp add: close_def Let_def text_close_def finish_def seal_def split: option.splits)

text \<open>
  What the catch block of the entry point does with a synchronous throw of \<open>e\<close>, the
  computation leaving the state \<open>s\<close>: with the stream not closed and \<^verbatim>\<open>String(e)\<close>
  returning a text, one error chunk at the root path, close, and \<open>e\<close> thrown on; with
  \<^verbatim>\<open>String(e)\<close> throwing \<open>e'\<close>, nothing but \<open>e'\<close> thrown; with the stream closed, \<open>e\<close>
  thrown on.
\<close>

lemma sync_failure:
  assumes "callback (new_impl c0) = (Throws e, s)"
  shows "(\<not> internal_isClosed s \<and> String_of e = Inr text \<longrightarrow>
            createAssistantStream c0 callback = (Inl e, close (enqueue (errorChunk text) s)) \<and>
            internal_getReadable (close (enqueue (errorChunk text) s)) =
              internal_getReadable s @ [\<lparr>ctype = ErrorChunk text, path = []\<rparr>] \<and>
            sealRequested (p_merger (close (enqueue (errorChunk text) s)))) \<and>
         (\<not> internal_isClosed s \<and> String_of e = Inl e' \<longrightarrow>
            createAssistantStream c0 callback = (Inl e', s)) \<and>
         (internal_isClosed s \<longrightarrow> createAssistantStream c0 callback = (Inl e, s))"
  using assms
  by (simp add: createAssistantStream_def readable_error_close sealRequested_close)

text \<open>
  C3. The claim: for every driving computation that throws synchronously, if the stream
  is not already sealed, exactly one error chunk is enqueued at the root path, the stream
  is then closed, and the original failure is re-raised.

  A computation that appends a text and then throws a value for which \<^verbatim>\<open>String(e)\<close>
  throws a \<^verbatim>\<open>TypeError\<close> (such as \<^verbatim>\<open>Object.create(null)\<close>): the stream is not closed when
  it throws, and the entry point throws the \<^verbatim>\<open>TypeError\<close> instead, leaving the state as
  the computation left it: no error chunk in the output, no seal requested.
\<close>

theorem sync_failure_unprintable:
  "createAssistantStream 0
     (\<lambda>c. (Throws (Unprintable (Printable ''TypeError'')), appendText ''a'' c)) =
     (Inl (Printable ''TypeError''), appendText ''a'' (new_impl 0)) \<and>
   \<not> internal_isClosed (appendText ''a'' (new_impl 0)) \<and>
   internal_getReadable (appendText ''a'' (new_impl 0)) = [\<lparr>ctype = PartStart TextInit, path = []\<rparr>] \<and>
   \<not> sealRequested (p_merger (appendText ''a'' (new_impl 0)))"
proof -
  have b: "\<not> internal_isClosed (appendText ''a'' (new_impl 0))"
    by code_simp
  have c: "internal_getReadable (appendText ''a'' (new_impl 0)) = [\<lparr>ctype = PartStart TextInit, path = []\<rparr>]"
    by code_simp
  have d: "\<not> sealRequested (p_merger (appendText ''a'' (new_impl 0)))"
    by code_simp
  show ?thesis
    using b c d by (simp add: createAssistantStream_def)
qed

text \<open>
  What the entry point does with a returned value and its later rejection with \<open>e\<close> in
  the state \<open>s\<close>: a \<^verbatim>\<open>Promise\<close> starts \<^verbatim>\<open>runTask\<close>, any other thenable does not, and then
  nothing is done when it rejects. \<^verbatim>\<open>runTask\<close>, with the stream not closed and
  \<^verbatim>\<open>String(e)\<close> returning a text, enqueues one error chunk at the root path, closes and
  rethrows \<open>e\<close>; with \<^verbatim>\<open>String(e)\<close> throwing \<open>e'\<close> it closes and throws \<open>e'\<close>.
\<close>

lemma async_failure:
  "(fst (callback (new_impl c0)) = Returns PromiseInstance \<longrightarrow>
      createAssistantStream c0 callback = (Inr RunTask, snd (callback (new_impl c0)))) \<and>
   (fst (callback (new_impl c0)) = Returns Thenable \<longrightarrow>
      fst (createAssistantStream c0 callback) = Inr NoTask) \<and>
   settle NoTask (Rejected e) s = (Inr (), s) \<and>
   (\<not> internal_isClosed s \<and> String_of e = Inr text \<longrightarrow>
      settle RunTask (Rejected e) s = (Inl e, close (enqueue (errorChunk text) s)) \<and>
      internal_getReadable (close (enqueue (errorChunk text) s)) =
        internal_getReadable s @ [\<lparr>ctype = ErrorChunk text, path = []\<rparr>] \<and>
      sealRequested (p_merger (close (enqueue (errorChunk text) s)))) \<and>
   (\<not> internal_isClosed s \<and> String_of e = Inl e' \<longrightarrow>
      settle RunTask (Rejected e) s = (Inl e', close s)) \<and>
   (internal_isClosed s \<longrightarrow> settle RunTask (Rejected e) s = (Inl e, s))"
  by (cases "callback (new_impl c0)")
     (simp add: createAssistantStream_def settle_def runTask_def Let_def
        open_after_enqueue_error readable_error_close sealRequested_close)

text \<open>
  C8. The claim: for every driving computation whose deferred result rejects, if the
  stream is not already sealed an error chunk is enqueued at the root path and the stream
  is closed, and the rejection is still surfaced.

  A computation that starts a text part, keeps it open, and returns a thenable that is
  not a \<^verbatim>\<open>Promise\<close>: the entry point takes the value for a plain return and closes at
  once, with no task awaiting it. The stream is not sealed (the text part is pending)
  when the thenable rejects, and no error chunk is enqueued. And the same computation
  returning a \<^verbatim>\<open>Promise\<close> that rejects with a value for which \<^verbatim>\<open>String(e)\<close> throws a
  \<^verbatim>\<open>TypeError\<close>: \<^verbatim>\<open>runTask\<close> closes without an error chunk and throws the \<^verbatim>\<open>TypeError\<close>.
\<close>

theorem async_failure_missed:
  "createAssistantStream 0 (\<lambda>c. (Returns Thenable, snd (addTextPart c))) =
     (Inr NoTask, close (snd (addTextPart (new_impl 0)))) \<and>
   \<not> internal_isClosed (close (snd (addTextPart (new_impl 0)))) \<and>
   settle NoTask (Rejected (Printable ''boom'')) (close (snd (addTextPart (new_impl 0)))) =
     (Inr (), close (snd (addTextPart (new_impl 0)))) \<and>
   internal_getReadable (close (snd (addTextPart (new_impl 0)))) =
     [\<lparr>ctype = PartStart TextInit, path = []\<rparr>] \<and>
   createAssistantStream 0 (\<lambda>c. (Returns PromiseInstance, snd (addTextPart c))) =
     (Inr RunTask, snd (addTextPart (new_impl 0))) \<and>
   \<not> internal_isClosed (snd (addTextPart (new_impl 0))) \<and>
   settle RunTask (Rejected (Unprintable (Printable ''TypeError''))) (snd (addTextPart (new_impl 0))) =
     (Inl (Printable ''TypeError''), close (snd (addTextPart (new_impl 0))))"
proof -
  have b: "\<not> internal_isClosed (snd (addTextPart (new_impl 0)))"
    by code_simp
  have c: "\<not> internal_isClosed (close (snd (addTextPart (new_impl 0))))"
    by code_simp
  have d: "internal_getReadable (close (snd (addTextPart (new_impl 0)))) =
     [\<lparr>ctype = PartStart TextInit, path = []\<rparr>]"
    by code_simp
  show ?thesis
    using b c d by (simp add: createAssistantStream_def settle_def runTask_def)
qed

section \<open>Starting a part\<close>

lemma isSealed_targetClosed: "isSealed (targetClosed s) = isSealed (p_merger s)"
  by (simp add: targetClosed_def text_close_def isSealed_finish split: option.splits)

lemma readable_targetClosed: "readable (targetClosed s) = readable (p_merger s)"
  by (simp add: targetClosed_def text_close_def readable_finish split: option.splits)

lemma length_sources_targetClosed: "length (sources (targetClosed s)) = length (sources (p_merger s))"
  by (simp add: targetClosed_def text_close_def length_sources_finish split: option.splits)

lemma isSealed_readable_upd: "isSealed (m\<lparr>readable := xs\<rparr>) = isSealed m"
  by (simp add: isSealed_def pending_def)

lemma addPart_open:
  assumes "\<not> internal_isClosed s"
  shows "addPart part stream s =
     s\<lparr>p_merger := (targetClosed s)
          \<lparr>readable := readable (p_merger s) @ [\<lparr>ctype = PartStart part, path = []\<rparr>],
           sources := sources (targetClosed s) @
             [stream\<lparr>through := PathAppendEncoder (val (p_contentCounter s) + 1),
                     registered := True\<rparr>]\<rparr>,
        p_append := None,
        p_contentCounter := (p_contentCounter s)\<lparr>val := val (p_contentCounter s) + 1\<rparr>\<rparr>"
proof -
  have o: "\<not> isSealed (targetClosed s)"
    using assms by (simp add: isSealed_targetClosed internal_isClosed_def)
  show ?thesis
    using o
    by (cases "p_append s")
       (simp_all add: addPart_def enqueue_def Let_def isRootPartStart_def merger_enqueue_def
          addStream_def up_def targetClosed_def isSealed_readable_upd
          text_close_def readable_finish)
qed

lemma update_last_targetClosed:
  "(sources (targetClosed s) @ [y])[length (sources (p_merger s)) := z] =
     sources (targetClosed s) @ [z]"
  by (simp add: list_update_append length_sources_targetClosed)

lemma appendText_new:
  assumes "\<not> internal_isClosed s" and "case p_append s of Some a \<Rightarrow> kind a \<noteq> Text | None \<Rightarrow> True"
  shows "appendText d s =
     s\<lparr>p_merger := (targetClosed s)
          \<lparr>readable := readable (p_merger s) @ [\<lparr>ctype = PartStart TextInit, path = []\<rparr>],
           sources := sources (targetClosed s) @
             [\<lparr>through = PathAppendEncoder (val (p_contentCounter s) + 1),
               queue = [\<lparr>ctype = TextDelta d, path = []\<rparr>], finished = False,
               argsTextClosed = False, registered = True\<rparr>]\<rparr>,
        p_append := Some \<lparr>controller = length (sources (p_merger s)), kind = Text\<rparr>,
        p_contentCounter := (p_contentCounter s)\<lparr>val := val (p_contentCounter s) + 1\<rparr>\<rparr>"
  using assms(2)
  by (simp add: appendText_def addTextPart_def addPart_open[OF assms(1)] Let_def
      text_append_def emit_def newStream_def length_sources_targetClosed nth_append
      update_last_targetClosed)

lemma appendReasoning_new:
  assumes "\<not> internal_isClosed s" and "case p_append s of Some a \<Rightarrow> kind a \<noteq> Reasoning | None \<Rightarrow> True"
  shows "appendReasoning d s =
     s\<lparr>p_merger := (targetClosed s)
          \<lparr>readable := readable (p_merger s) @ [\<lparr>ctype = PartStart ReasoningInit, path = []\<rparr>],
           sources := sources (targetClosed s) @
             [\<lparr>through = PathAppendEncoder (val (p_contentCounter s) + 1),
               queue = [\<lparr>ctype = TextDelta d, path = []\<rparr>], finished = False,
               argsTextClosed = False, registered = True\<rparr>]\<rparr>,
        p_append := Some \<lparr>controller = length (sources (p_merger s)), kind = Reasoning\<rparr>,
        p_contentCounter := (p_contentCounter s)\<lparr>val := val (p_contentCounter s) + 1\<rparr>\<rparr>"
  using assms(2)
  by (simp add: appendReasoning_def addReasoningPart_def addPart_open[OF assms(1)] Let_def
      text_append_def emit_def newStream_def length_sources_targetClosed nth_append
      update_last_targetClosed)

text \<open>
  C4. The claim: when \<^verbatim>\<open>appendText\<close> or \<^verbatim>\<open>appendReasoning\<close> starts a new part, the
  part-start chunk carries a freshly drawn position assigned via the fixed Path Rewriter,
  and the part's sub-sequence is registered under that position.

  What holds, for a stream that is not closed and a target that is absent or of the
  other kind: the part-start chunk goes to the output as \<^verbatim>\<open>_addPart\<close> builds it, at the
  root path \<open>[]\<close> (it is handed to \<^verbatim>\<open>enqueue\<close>, not to a rewriter); the Index Generator
  advances by one; the new sub-sequence, holding the delta, is registered behind a fixed
  Path Rewriter whose constant is the generator's new value; it becomes the target.
\<close>

theorem append_starts_part:
  assumes "\<not> internal_isClosed s"
    and "case p_append s of Some a \<Rightarrow> kind a \<noteq> k | None \<Rightarrow> True"
  shows "internal_getReadable ((case k of Text \<Rightarrow> appendText d | Reasoning \<Rightarrow> appendReasoning d) s) =
           internal_getReadable s @
             [\<lparr>ctype = PartStart (case k of Text \<Rightarrow> TextInit | Reasoning \<Rightarrow> ReasoningInit), path = []\<rparr>] \<and>
         val (p_contentCounter ((case k of Text \<Rightarrow> appendText d | Reasoning \<Rightarrow> appendReasoning d) s)) =
           val (p_contentCounter s) + 1 \<and>
         length (sources (p_merger ((case k of Text \<Rightarrow> appendText d | Reasoning \<Rightarrow> appendReasoning d) s))) =
           length (sources (p_merger s)) + 1 \<and>
         sources (p_merger ((case k of Text \<Rightarrow> appendText d | Reasoning \<Rightarrow> appendReasoning d) s)) !
             length (sources (p_merger s)) =
           \<lparr>through = PathAppendEncoder (val (p_contentCounter s) + 1),
            queue = [\<lparr>ctype = TextDelta d, path = []\<rparr>], finished = False,
            argsTextClosed = False, registered = True\<rparr> \<and>
         p_append ((case k of Text \<Rightarrow> appendText d | Reasoning \<Rightarrow> appendReasoning d) s) =
           Some \<lparr>controller = length (sources (p_merger s)), kind = k\<rparr>"
proof (cases k)
  case Text
  have c: "case p_append s of Some a \<Rightarrow> kind a \<noteq> Text | None \<Rightarrow> True"
    using assms(2) Text by (auto split: option.splits)
  show ?thesis
    using Text
    by (simp add: appendText_new[OF assms(1) c] internal_getReadable_def
        length_sources_targetClosed nth_append)
next
  case Reasoning
  have c: "case p_append s of Some a \<Rightarrow> kind a \<noteq> Reasoning | None \<Rightarrow> True"
    using assms(2) Reasoning by (auto split: option.splits)
  show ?thesis
    using Reasoning
    by (simp add: appendReasoning_new[OF assms(1) c] internal_getReadable_def
        length_sources_targetClosed nth_append)
qed

text \<open>\<^verbatim>\<open>appendText("a")\<close> on a new controller whose Index Generator starts at 0.\<close>

theorem append_starts_part_witness:
  "\<not> internal_isClosed (new_impl 0) \<and>
   (case p_append (new_impl 0) of Some a \<Rightarrow> kind a \<noteq> Text | None \<Rightarrow> True) \<and>
   internal_getReadable (appendText ''a'' (new_impl 0)) = [\<lparr>ctype = PartStart TextInit, path = []\<rparr>] \<and>
   val (p_contentCounter (appendText ''a'' (new_impl 0))) = 1 \<and>
   sources (p_merger (appendText ''a'' (new_impl 0))) ! 0 =
     \<lparr>through = PathAppendEncoder 1, queue = [\<lparr>ctype = TextDelta ''a'', path = []\<rparr>],
      finished = False, argsTextClosed = False, registered = True\<rparr> \<and>
   p_append (appendText ''a'' (new_impl 0)) = Some \<lparr>controller = 0, kind = Text\<rparr>"
proof -
  have a: "\<not> internal_isClosed (new_impl 0)"
    by code_simp
  have b: "case p_append (new_impl 0) of Some a \<Rightarrow> kind a \<noteq> Text | None \<Rightarrow> True"
    by code_simp
  have c: "internal_getReadable (new_impl 0) = []" "val (p_contentCounter (new_impl 0)) = 0"
    "length (sources (p_merger (new_impl 0))) = 0"
    by (simp_all add: new_impl_def internal_getReadable_def createMergeStream_def)
  show ?thesis
    using a b append_starts_part[OF a b, of "''a''"] by (simp add: c)
qed

text \<open>
  There the part's position is 1, and the part-start chunk in the output has the empty
  path: the chunk rewritten to position 1 is not in the output.
\<close>

theorem part_start_at_root:
  "internal_getReadable (appendText ''a'' (new_impl 0)) = [\<lparr>ctype = PartStart TextInit, path = []\<rparr>] \<and>
   through (sources (p_merger (appendText ''a'' (new_impl 0))) ! 0) = PathAppendEncoder 1 \<and>
   pathAppend 1 \<lparr>ctype = PartStart TextInit, path = []\<rparr> \<notin>
     set (internal_getReadable (appendText ''a'' (new_impl 0)))"
  by code_simp

section \<open>Appending twice\<close>










section \<open>Switching from text to reasoning\<close>










section \<open>A tool call with arguments and result\<close>





section \<open>Positions of the parts\<close>


end
